theory Spec2Isabelle
  imports Complex_Main "HOL-Library.Monad_Syntax"
begin

section \<open>Floating-point values of the solubility engine\<close>

text \<open>
  The source computes with NumPy float64 arrays. A sample value is modelled as an exact
  real number, \<open>Fin r\<close>, or as \<open>NonFin\<close>: the arithmetic has left the finite reals
  (NumPy yields \<open>inf\<close> or \<open>nan\<close> there, with a RuntimeWarning, and never raises).
  \<open>NonFin\<close> is absorbing, as \<open>nan\<close> is. Rounding and overflow of float64 are not
  modelled here: \<open>Fin r\<close> is the value the formula has over the reals. The rounded
  operations come in the section on float64 rounding.

  No operation below reads a HOL function outside its domain: division by zero, the
  logarithm of a non-positive number, the square root of a negative number and a
  fractional power of a negative number all give \<open>NonFin\<close>.
\<close>

datatype npfloat = Fin real | NonFin

instantiation npfloat :: "{zero, one, plus, minus, uminus, times, inverse}"
begin

definition zero_npfloat :: npfloat where
  "zero_npfloat = Fin 0"

definition one_npfloat :: npfloat where
  "one_npfloat = Fin 1"

fun plus_npfloat :: "npfloat \<Rightarrow> npfloat \<Rightarrow> npfloat" where
  "plus_npfloat (Fin a) (Fin b) = Fin (a + b)"
| "plus_npfloat _ _ = NonFin"

fun minus_npfloat :: "npfloat \<Rightarrow> npfloat \<Rightarrow> npfloat" where
  "minus_npfloat (Fin a) (Fin b) = Fin (a - b)"
| "minus_npfloat _ _ = NonFin"

fun uminus_npfloat :: "npfloat \<Rightarrow> npfloat" where
  "uminus_npfloat (Fin a) = Fin (- a)"
| "uminus_npfloat NonFin = NonFin"

fun times_npfloat :: "npfloat \<Rightarrow> npfloat \<Rightarrow> npfloat" where
  "times_npfloat (Fin a) (Fin b) = Fin (a * b)"
| "times_npfloat _ _ = NonFin"

fun divide_npfloat :: "npfloat \<Rightarrow> npfloat \<Rightarrow> npfloat" where
  "divide_npfloat (Fin a) (Fin b) = (if b = 0 then NonFin else Fin (a / b))"
| "divide_npfloat _ _ = NonFin"

fun inverse_npfloat :: "npfloat \<Rightarrow> npfloat" where
  "inverse_npfloat (Fin b) = (if b = 0 then NonFin else Fin (inverse b))"
| "inverse_npfloat NonFin = NonFin"

instance ..

end

instance npfloat :: semigroup_add
proof
  fix a b c :: npfloat
  show "a + b + c = a + (b + c)"
    by (cases a; cases b; cases c) simp_all
qed

instance npfloat :: numeral ..

instance npfloat :: power ..

text \<open>\<open>numpy.exp\<close>, \<open>numpy.log10\<close>, \<open>numpy.sqrt\<close> on one element.\<close>

fun np_exp :: "npfloat \<Rightarrow> npfloat" where
  "np_exp (Fin x) = Fin (exp x)"
| "np_exp NonFin = NonFin"

fun np_log10 :: "npfloat \<Rightarrow> npfloat" where
  "np_log10 (Fin x) = (if 0 < x then Fin (log 10 x) else NonFin)"
| "np_log10 NonFin = NonFin"

fun np_sqrt :: "npfloat \<Rightarrow> npfloat" where
  "np_sqrt (Fin x) = (if 0 \<le> x then Fin (sqrt x) else NonFin)"
| "np_sqrt NonFin = NonFin"

text \<open>
  The operator \<open>**\<close> on floats: a positive base takes any exponent; zero to a positive
  power is zero, to the power zero is one, to a negative power is infinite; a negative
  base takes whole exponents only (\<open>nan\<close> otherwise).
\<close>

fun np_power :: "npfloat \<Rightarrow> npfloat \<Rightarrow> npfloat" where
  "np_power (Fin x) (Fin y) =
     (if 0 < x then Fin (x powr y)
      else if x = 0 then (if 0 < y then Fin 0 else if y = 0 then Fin 1 else NonFin)
      else if y = of_int \<lfloor>y\<rfloor> then Fin (x powi \<lfloor>y\<rfloor>)
      else NonFin)"
| "np_power _ _ = NonFin"

section \<open>Unit conversion and constants (module \<open>convert\<close>, module \<open>constants\<close>)\<close>

text \<open>
  Modelled from the spec: \<open>convert.TempC2K\<close>, \<open>convert.TempK2C\<close> and
  \<open>convert.Pdbar2bar\<close> are not among the source files. Section 4.1 of the specification
  gives them: \<open>TempC2K(TempC) = TempC + 273.15\<close>, its inverse \<open>TempK2C\<close>, and
  \<open>Pdbar2bar(Pdbar) = Pdbar / 10\<close>.

  \<open>constants.RGasConstant\<close> is missing as well and the specification gives no value for
  it, so every function that reads it takes it as its first argument, a finite real.
\<close>

definition TempC2K :: "npfloat \<Rightarrow> npfloat" where
  "TempC2K TempC = TempC + 273.15"

definition TempK2C :: "npfloat \<Rightarrow> npfloat" where
  "TempK2C TempK = TempK - 273.15"

definition Pdbar2bar :: "npfloat \<Rightarrow> npfloat" where
  "Pdbar2bar Pdbar = Pdbar / 10"

section \<open>Solubility constants on one sample (\<open>solubility.py\<close>)\<close>

text \<open>
  Each function of this section is a chain of elementwise NumPy operations, so on arrays
  it computes, at every index, the function given here on that index's values.
  A reassigned Python variable is a shadowing \<open>let\<close>.
\<close>

definition deltaKappaCalcite_I75 :: "npfloat \<Rightarrow> npfloat \<times> npfloat" where
  "deltaKappaCalcite_I75 TempC =
     (let deltaVKCa = - 48.76 + 0.5304 * TempC;
          KappaKCa = (- 11.76 + 0.3692 * TempC) / 1000
      in (deltaVKCa, KappaKCa))"

definition k_calcite_M83 :: "real \<Rightarrow> npfloat \<Rightarrow> npfloat \<Rightarrow> npfloat \<Rightarrow> npfloat" where
  "k_calcite_M83 RGasConstant TempK Sal Pbar =
     (let logKCa = - 171.9065 - 0.077993 * TempK + 2839.319 / TempK;
          logKCa = logKCa + 71.595 * np_log10 TempK;
          logKCa = logKCa + (- 0.77712 + 0.0028426 * TempK + 178.34 / TempK) * np_sqrt Sal;
          logKCa = logKCa - 0.07711 * Sal + 0.0041249 * np_sqrt Sal * Sal;
          KCa = np_power 10.0 logKCa;
          TempC = TempK2C TempK;
          (deltaVKCa, KappaKCa) = deltaKappaCalcite_I75 TempC;
          lnKCafac = (- deltaVKCa + 0.5 * KappaKCa * Pbar) * Pbar / (Fin RGasConstant * TempK);
          KCa = KCa * np_exp lnKCafac
      in KCa)"

definition k_aragonite_M83 :: "real \<Rightarrow> npfloat \<Rightarrow> npfloat \<Rightarrow> npfloat \<Rightarrow> npfloat" where
  "k_aragonite_M83 RGasConstant TempK Sal Pbar =
     (let logKAr = - 171.945 - 0.077993 * TempK + 2903.293 / TempK;
          logKAr = logKAr + 71.595 * np_log10 TempK;
          logKAr = logKAr + (- 0.068393 + 0.0017276 * TempK + 88.135 / TempK) * np_sqrt Sal;
          logKAr = logKAr - 0.10018 * Sal + 0.0059415 * np_sqrt Sal * Sal;
          KAr = np_power 10.0 logKAr;
          TempC = TempK2C TempK;
          (deltaVKCa, KappaKCa) = deltaKappaCalcite_I75 TempC;
          deltaVKAr = deltaVKCa + 2.8;
          KappaKAr = KappaKCa;
          lnKArfac = (- deltaVKAr + 0.5 * KappaKAr * Pbar) * Pbar / (Fin RGasConstant * TempK);
          KAr = KAr * np_exp lnKArfac
      in KAr)"

definition k_calcite_I75 :: "real \<Rightarrow> npfloat \<Rightarrow> npfloat \<Rightarrow> npfloat \<Rightarrow> npfloat" where
  "k_calcite_I75 RGasConstant TempK Sal Pbar =
     (let KCa = 0.0000001 *
            (- 34.452
             - 39.866 * np_power Sal (1 / 3)
             + 110.21 * np_log10 Sal
             - 0.0000075752 * np_power TempK 2);
          TempC = TempK2C TempK;
          KCa = KCa * np_exp ((36 - 0.2 * TempC) * Pbar / (Fin RGasConstant * TempK))
      in KCa)"

definition k_aragonite_GEOSECS :: "real \<Rightarrow> npfloat \<Rightarrow> npfloat \<Rightarrow> npfloat \<Rightarrow> npfloat" where
  "k_aragonite_GEOSECS RGasConstant TempK Sal Pbar =
     (let KCa = k_calcite_I75 RGasConstant TempK Sal Pbar;
          KAr = 1.45 * KCa;
          TempC = TempK2C TempK;
          KAr = KAr * np_exp ((33.3 - 0.22 * TempC) * Pbar / (Fin RGasConstant * TempK))
      in KAr)"

section \<open>Arrays of samples\<close>

text \<open>
  A NumPy array of samples is a list, one entry per sample; a list of one entry also
  stands for a NumPy scalar. An elementwise operation on two arrays broadcasts: arrays of equal length
  combine index by index, an array of length one is stretched to the other's length, and
  any other pair of lengths raises \<open>ValueError\<close> (operands could not be broadcast
  together), which is the result \<open>None\<close>.
\<close>

definition broadcast2 :: "('a \<Rightarrow> 'b \<Rightarrow> 'c) \<Rightarrow> 'a list \<Rightarrow> 'b list \<Rightarrow> 'c list option" where
  "broadcast2 f xs ys =
     (if length xs = length ys then Some (map2 f xs ys)
      else if length xs = 1 then Some (map (f (hd xs)) ys)
      else if length ys = 1 then Some (map (\<lambda>x. f x (hd ys)) xs)
      else None)"

definition broadcast3 ::
  "('a \<Rightarrow> 'b \<Rightarrow> 'c \<Rightarrow> 'd) \<Rightarrow> 'a list \<Rightarrow> 'b list \<Rightarrow> 'c list \<Rightarrow> 'd list option" where
  "broadcast3 f xs ys zs =
     do { g \<leftarrow> broadcast2 f xs ys;
          broadcast2 (\<lambda>h z. h z) g zs }"

text \<open>\<open>numpy.where(F, x, y)\<close>: at each index, \<open>x\<close> where the mask holds, else \<open>y\<close>.\<close>

definition np_where :: "bool list \<Rightarrow> 'a list \<Rightarrow> 'a list \<Rightarrow> 'a list option" where
  "np_where F xs ys = broadcast3 (\<lambda>c x y. if c then x else y) F xs ys"

section \<open>Saturation states (\<open>solubility.py\<close>)\<close>

text \<open>
  \<open>WhichKs\<close> holds the constant-set selector of each sample, an integer code. The mask
  \<open>(WhichKs == 6) | (WhichKs == 7)\<close> compares every entry with a scalar and joins the
  two boolean arrays, which have the length of \<open>WhichKs\<close>, entry by entry. Both
  branches of \<open>where\<close> are computed on the whole arrays before the selection.
\<close>

definition calcite ::
  "real \<Rightarrow> npfloat list \<Rightarrow> npfloat list \<Rightarrow> npfloat list \<Rightarrow> npfloat list \<Rightarrow> npfloat list \<Rightarrow>
   int list \<Rightarrow> npfloat list \<Rightarrow> npfloat list \<Rightarrow> npfloat list option" where
  "calcite RGasConstant Sal TempK Pbar CARB TCa WhichKs K1 K2 =
     do { let F = map2 (\<or>) (map (\<lambda>w. w = 6) WhichKs) (map (\<lambda>w. w = 7) WhichKs);
          I75 \<leftarrow> broadcast3 (k_calcite_I75 RGasConstant) TempK Sal Pbar;
          M83 \<leftarrow> broadcast3 (k_calcite_M83 RGasConstant) TempK Sal Pbar;
          KCa \<leftarrow> np_where F I75 M83;
          CARB_TCa \<leftarrow> broadcast2 (*) CARB TCa;
          OmegaCa \<leftarrow> broadcast2 (/) CARB_TCa KCa;
          Some OmegaCa }"

definition aragonite ::
  "real \<Rightarrow> npfloat list \<Rightarrow> npfloat list \<Rightarrow> npfloat list \<Rightarrow> npfloat list \<Rightarrow> npfloat list \<Rightarrow>
   int list \<Rightarrow> npfloat list \<Rightarrow> npfloat list \<Rightarrow> npfloat list option" where
  "aragonite RGasConstant Sal TempK Pbar CARB TCa WhichKs K1 K2 =
     do { let F = map2 (\<or>) (map (\<lambda>w. w = 6) WhichKs) (map (\<lambda>w. w = 7) WhichKs);
          GEOSECS \<leftarrow> broadcast3 (k_aragonite_GEOSECS RGasConstant) TempK Sal Pbar;
          M83 \<leftarrow> broadcast3 (k_aragonite_M83 RGasConstant) TempK Sal Pbar;
          KAr \<leftarrow> np_where F GEOSECS M83;
          CARB_TCa \<leftarrow> broadcast2 (*) CARB TCa;
          OmegaAr \<leftarrow> broadcast2 (/) CARB_TCa KAr;
          Some OmegaAr }"

definition CaCO3 ::
  "real \<Rightarrow> npfloat list \<Rightarrow> npfloat list \<Rightarrow> npfloat list \<Rightarrow> npfloat list \<Rightarrow> npfloat list \<Rightarrow>
   int list \<Rightarrow> npfloat list \<Rightarrow> npfloat list \<Rightarrow> (npfloat list \<times> npfloat list) option" where
  "CaCO3 RGasConstant Sal TempC Pdbar CARB TCa WhichKs K1 K2 =
     do { let TempK = map TempC2K TempC;
          let Pbar = map Pdbar2bar Pdbar;
          OmegaCa \<leftarrow> calcite RGasConstant Sal TempK Pbar CARB TCa WhichKs K1 K2;
          OmegaAr \<leftarrow> aragonite RGasConstant Sal TempK Pbar CARB TCa WhichKs K1 K2;
          Some (OmegaCa, OmegaAr) }"

section \<open>Float64 rounding\<close>

text \<open>
  The values above are exact reals. Where a property compares two different orders of
  operations, the rounding of float64 decides, so the GEOSECS path and the dispatchers are
  also given with every operation rounded as IEEE 754 binary64 does: to the nearest number
  with a 53-bit significand, ties to the even significand (\<open>rne\<close>), with the fixed
  spacing \<open>2 ** -1074\<close> below \<open>2 ** -1022\<close> and overflow to \<open>inf\<close> from
  \<open>2 ** 1024\<close> on. Signed zeros are not told apart. \<open>f64 x\<close> is the float literal \<open>x\<close>.
  The elementary functions are taken as correctly rounded; at the arguments evaluated
  below (\<open>log10 1\<close>, \<open>1 ** y\<close>, \<open>x ** 2\<close>, \<open>exp 0\<close>) their results are exact in
  every implementation.
\<close>

definition rne :: "real \<Rightarrow> int" where
  "rne m = (let f = \<lfloor>m\<rfloor>; d = m - of_int f
            in if d < 1 / 2 then f else if 1 / 2 < d then f + 1 else if even f then f else f + 1)"

definition fl64 :: "real \<Rightarrow> real" where
  "fl64 x = (if x = 0 then 0
             else let e = max \<lfloor>log 2 \<bar>x\<bar>\<rfloor> (- 1022)
                  in of_int (rne (x / 2 powi (e - 52))) * 2 powi (e - 52))"

fun rnd :: "npfloat \<Rightarrow> npfloat" where
  "rnd (Fin x) = (let y = fl64 x in if 2 ^ 1024 \<le> \<bar>y\<bar> then NonFin else Fin y)"
| "rnd NonFin = NonFin"

definition f64 :: "real \<Rightarrow> npfloat" where
  "f64 x = rnd (Fin x)"

text \<open>
  The functions of \<open>solubility.py\<close> once more, in the source's order of operations,
  every literal and every result of an operation rounded. \<open>TempK2C_f64\<close> is modelled
  from the spec as \<open>TempK2C\<close> is.
\<close>

definition TempK2C_f64 :: "npfloat \<Rightarrow> npfloat" where
  "TempK2C_f64 TempK = rnd (TempK - f64 273.15)"

definition deltaKappaCalcite_I75_f64 :: "npfloat \<Rightarrow> npfloat \<times> npfloat" where
  "deltaKappaCalcite_I75_f64 TempC =
     (let deltaVKCa = rnd (- f64 48.76 + rnd (f64 0.5304 * TempC));
          KappaKCa = rnd (rnd (- f64 11.76 + rnd (f64 0.3692 * TempC)) / 1000)
      in (deltaVKCa, KappaKCa))"

definition k_calcite_M83_f64 :: "real \<Rightarrow> npfloat \<Rightarrow> npfloat \<Rightarrow> npfloat \<Rightarrow> npfloat" where
  "k_calcite_M83_f64 RGasConstant TempK Sal Pbar =
     (let logKCa = rnd (rnd (- f64 171.9065 - rnd (f64 0.077993 * TempK)) +
                        rnd (f64 2839.319 / TempK));
          logKCa = rnd (logKCa + rnd (f64 71.595 * rnd (np_log10 TempK)));
          logKCa = rnd (logKCa +
                        rnd (rnd (rnd (- f64 0.77712 + rnd (f64 0.0028426 * TempK)) +
                                  rnd (f64 178.34 / TempK)) * rnd (np_sqrt Sal)));
          logKCa = rnd (rnd (logKCa - rnd (f64 0.07711 * Sal)) +
                        rnd (rnd (f64 0.0041249 * rnd (np_sqrt Sal)) * Sal));
          KCa = rnd (np_power 10.0 logKCa);
          TempC = TempK2C_f64 TempK;
          (deltaVKCa, KappaKCa) = deltaKappaCalcite_I75_f64 TempC;
          lnKCafac = rnd (rnd (rnd (- deltaVKCa + rnd (rnd (f64 0.5 * KappaKCa) * Pbar)) * Pbar) /
                          rnd (f64 RGasConstant * TempK));
          KCa = rnd (KCa * rnd (np_exp lnKCafac))
      in KCa)"

definition k_aragonite_M83_f64 :: "real \<Rightarrow> npfloat \<Rightarrow> npfloat \<Rightarrow> npfloat \<Rightarrow> npfloat" where
  "k_aragonite_M83_f64 RGasConstant TempK Sal Pbar =
     (let logKAr = rnd (rnd (- f64 171.945 - rnd (f64 0.077993 * TempK)) +
                        rnd (f64 2903.293 / TempK));
          logKAr = rnd (logKAr + rnd (f64 71.595 * rnd (np_log10 TempK)));
          logKAr = rnd (logKAr +
                        rnd (rnd (rnd (- f64 0.068393 + rnd (f64 0.0017276 * TempK)) +
                                  rnd (f64 88.135 / TempK)) * rnd (np_sqrt Sal)));
          logKAr = rnd (rnd (logKAr - rnd (f64 0.10018 * Sal)) +
                        rnd (rnd (f64 0.0059415 * rnd (np_sqrt Sal)) * Sal));
          KAr = rnd (np_power 10.0 logKAr);
          TempC = TempK2C_f64 TempK;
          (deltaVKCa, KappaKCa) = deltaKappaCalcite_I75_f64 TempC;
          deltaVKAr = rnd (deltaVKCa + f64 2.8);
          KappaKAr = KappaKCa;
          lnKArfac = rnd (rnd (rnd (- deltaVKAr + rnd (rnd (f64 0.5 * KappaKAr) * Pbar)) * Pbar) /
                          rnd (f64 RGasConstant * TempK));
          KAr = rnd (KAr * rnd (np_exp lnKArfac))
      in KAr)"

definition k_calcite_I75_f64 :: "real \<Rightarrow> npfloat \<Rightarrow> npfloat \<Rightarrow> npfloat \<Rightarrow> npfloat" where
  "k_calcite_I75_f64 RGasConstant TempK Sal Pbar =
     (let KCa = rnd (f64 0.0000001 *
            rnd (rnd (rnd (- f64 34.452
                           - rnd (f64 39.866 * rnd (np_power Sal (rnd (1 / 3)))))
                      + rnd (f64 110.21 * rnd (np_log10 Sal)))
                 - rnd (f64 0.0000075752 * rnd (np_power TempK 2))));
          TempC = TempK2C_f64 TempK;
          KCa = rnd (KCa * rnd (np_exp (rnd (rnd (rnd (36 - rnd (f64 0.2 * TempC)) * Pbar) /
                                              rnd (f64 RGasConstant * TempK)))))
      in KCa)"

definition k_aragonite_GEOSECS_f64 :: "real \<Rightarrow> npfloat \<Rightarrow> npfloat \<Rightarrow> npfloat \<Rightarrow> npfloat" where
  "k_aragonite_GEOSECS_f64 RGasConstant TempK Sal Pbar =
     (let KCa = k_calcite_I75_f64 RGasConstant TempK Sal Pbar;
          KAr = rnd (f64 1.45 * KCa);
          TempC = TempK2C_f64 TempK;
          KAr = rnd (KAr * rnd (np_exp (rnd (rnd (rnd (f64 33.3 - rnd (f64 0.22 * TempC)) * Pbar) /
                                              rnd (f64 RGasConstant * TempK)))))
      in KAr)"

definition calcite_f64 ::
  "real \<Rightarrow> npfloat list \<Rightarrow> npfloat list \<Rightarrow> npfloat list \<Rightarrow> npfloat list \<Rightarrow> npfloat list \<Rightarrow>
   int list \<Rightarrow> npfloat list \<Rightarrow> npfloat list \<Rightarrow> npfloat list option" where
  "calcite_f64 RGasConstant Sal TempK Pbar CARB TCa WhichKs K1 K2 =
     do { let F = map2 (\<or>) (map (\<lambda>w. w = 6) WhichKs) (map (\<lambda>w. w = 7) WhichKs);
          I75 \<leftarrow> broadcast3 (k_calcite_I75_f64 RGasConstant) TempK Sal Pbar;
          M83 \<leftarrow> broadcast3 (k_calcite_M83_f64 RGasConstant) TempK Sal Pbar;
          KCa \<leftarrow> np_where F I75 M83;
          CARB_TCa \<leftarrow> broadcast2 (\<lambda>a b. rnd (a * b)) CARB TCa;
          OmegaCa \<leftarrow> broadcast2 (\<lambda>a b. rnd (a / b)) CARB_TCa KCa;
          Some OmegaCa }"

definition aragonite_f64 ::
  "real \<Rightarrow> npfloat list \<Rightarrow> npfloat list \<Rightarrow> npfloat list \<Rightarrow> npfloat list \<Rightarrow> npfloat list \<Rightarrow>
   int list \<Rightarrow> npfloat list \<Rightarrow> npfloat list \<Rightarrow> npfloat list option" where
  "aragonite_f64 RGasConstant Sal TempK Pbar CARB TCa WhichKs K1 K2 =
     do { let F = map2 (\<or>) (map (\<lambda>w. w = 6) WhichKs) (map (\<lambda>w. w = 7) WhichKs);
          GEOSECS \<leftarrow> broadcast3 (k_aragonite_GEOSECS_f64 RGasConstant) TempK Sal Pbar;
          M83 \<leftarrow> broadcast3 (k_aragonite_M83_f64 RGasConstant) TempK Sal Pbar;
          KAr \<leftarrow> np_where F GEOSECS M83;
          CARB_TCa \<leftarrow> broadcast2 (\<lambda>a b. rnd (a * b)) CARB TCa;
          OmegaAr \<leftarrow> broadcast2 (\<lambda>a b. rnd (a / b)) CARB_TCa KAr;
          Some OmegaAr }"

section \<open>Arithmetic of sample values\<close>

lemma numeral_npfloat: "(numeral k :: npfloat) = Fin (numeral k)"
  by (induction k) (simp_all only: numeral.simps one_npfloat_def plus_npfloat.simps)

lemma power_npfloat: "(Fin x) ^ n = Fin (x ^ n)"
  by (induction n) (simp_all add: one_npfloat_def)

lemmas npfloat_literals = numeral_npfloat power_npfloat one_npfloat_def zero_npfloat_def

lemma times_one_npfloat: "x * Fin 1 = x"
  by (cases x) simp_all

text \<open>
  At zero pressure the exponent of a pressure correction is \<open>0 / (R * TempK)\<close>, which is
  zero whenever \<open>R * TempK\<close> is not.
\<close>

lemma zero_pressure_exponent:
  assumes "R \<noteq> 0" "t \<noteq> 0"
  shows "np_exp (Fin a * 0 / (Fin R * Fin t)) = Fin 1"
  using assms by (simp add: zero_npfloat_def)

section \<open>Elementwise operations on arrays of one length\<close>

lemma broadcast2_equal_length:
  assumes "length xs = n" "length ys = n"
  shows "broadcast2 f xs ys = Some (map (\<lambda>i. f (xs ! i) (ys ! i)) [0..<n])"
proof -
  have "map2 f xs ys = map (\<lambda>i. f (xs ! i) (ys ! i)) [0..<n]"
    using assms by (intro nth_equalityI) simp_all
  then show ?thesis
    using assms by (simp add: broadcast2_def)
qed

lemma broadcast3_equal_length:
  assumes "length xs = n" "length ys = n" "length zs = n"
  shows "broadcast3 f xs ys zs = Some (map (\<lambda>i. f (xs ! i) (ys ! i) (zs ! i)) [0..<n])"
  using assms by (simp add: broadcast3_def broadcast2_equal_length [where n = n])

lemma mask_equal_length:
  "map2 (\<or>) (map (\<lambda>w. w = a) ws) (map (\<lambda>w. w = b) ws) =
   map (\<lambda>i. ws ! i = a \<or> ws ! i = b) [0..<length ws]"
  by (intro nth_equalityI) simp_all

lemma calcite_equal_length:
  assumes "length Sal = n" "length TempK = n" "length Pbar = n" "length CARB = n"
    "length TCa = n" "length WhichKs = n"
  shows "calcite R Sal TempK Pbar CARB TCa WhichKs K1 K2 =
     Some (map (\<lambda>i. CARB ! i * TCa ! i /
        (if WhichKs ! i = 6 \<or> WhichKs ! i = 7
         then k_calcite_I75 R (TempK ! i) (Sal ! i) (Pbar ! i)
         else k_calcite_M83 R (TempK ! i) (Sal ! i) (Pbar ! i))) [0..<n])"
  using assms
  by (simp add: calcite_def np_where_def mask_equal_length
      broadcast3_equal_length [where n = n] broadcast2_equal_length [where n = n] cong: map_cong)

lemma aragonite_equal_length:
  assumes "length Sal = n" "length TempK = n" "length Pbar = n" "length CARB = n"
    "length TCa = n" "length WhichKs = n"
  shows "aragonite R Sal TempK Pbar CARB TCa WhichKs K1 K2 =
     Some (map (\<lambda>i. CARB ! i * TCa ! i /
        (if WhichKs ! i = 6 \<or> WhichKs ! i = 7
         then k_aragonite_GEOSECS R (TempK ! i) (Sal ! i) (Pbar ! i)
         else k_aragonite_M83 R (TempK ! i) (Sal ! i) (Pbar ! i))) [0..<n])"
  using assms
  by (simp add: aragonite_def np_where_def mask_equal_length
      broadcast3_equal_length [where n = n] broadcast2_equal_length [where n = n] cong: map_cong)

lemma calcite_at_index:
  assumes "length Sal = n" "length TempK = n" "length Pbar = n" "length CARB = n"
    "length TCa = n" "length WhichKs = n" and "i < n"
  shows "map_option (\<lambda>OmegaCa. OmegaCa ! i) (calcite R Sal TempK Pbar CARB TCa WhichKs K1 K2) =
       Some (CARB ! i * TCa ! i /
         (if WhichKs ! i = 6 \<or> WhichKs ! i = 7
          then k_calcite_I75 R (TempK ! i) (Sal ! i) (Pbar ! i)
          else k_calcite_M83 R (TempK ! i) (Sal ! i) (Pbar ! i)))"
  using assms by (simp add: calcite_equal_length [where n = n])

lemma aragonite_at_index:
  assumes "length Sal = n" "length TempK = n" "length Pbar = n" "length CARB = n"
    "length TCa = n" "length WhichKs = n" and "i < n"
  shows "map_option (\<lambda>OmegaAr. OmegaAr ! i) (aragonite R Sal TempK Pbar CARB TCa WhichKs K1 K2) =
       Some (CARB ! i * TCa ! i /
         (if WhichKs ! i = 6 \<or> WhichKs ! i = 7
          then k_aragonite_GEOSECS R (TempK ! i) (Sal ! i) (Pbar ! i)
          else k_aragonite_M83 R (TempK ! i) (Sal ! i) (Pbar ! i)))"
  using assms by (simp add: aragonite_equal_length [where n = n])

lemma CaCO3_equal_length:
  assumes "length Sal = n" "length TempC = n" "length Pdbar = n" "length CARB = n"
    "length TCa = n" "length WhichKs = n"
  shows "CaCO3 R Sal TempC Pdbar CARB TCa WhichKs K1 K2 =
     Some (map (\<lambda>i. CARB ! i * TCa ! i /
              (if WhichKs ! i = 6 \<or> WhichKs ! i = 7
               then k_calcite_I75 R (TempC2K (TempC ! i)) (Sal ! i) (Pdbar2bar (Pdbar ! i))
               else k_calcite_M83 R (TempC2K (TempC ! i)) (Sal ! i) (Pdbar2bar (Pdbar ! i)))) [0..<n],
           map (\<lambda>i. CARB ! i * TCa ! i /
              (if WhichKs ! i = 6 \<or> WhichKs ! i = 7
               then k_aragonite_GEOSECS R (TempC2K (TempC ! i)) (Sal ! i) (Pdbar2bar (Pdbar ! i))
               else k_aragonite_M83 R (TempC2K (TempC ! i)) (Sal ! i) (Pdbar2bar (Pdbar ! i)))) [0..<n])"
  using assms
  by (simp add: CaCO3_def Let_def calcite_equal_length [where n = n]
      aragonite_equal_length [where n = n] cong: map_cong)

section \<open>Shapes: when the dispatchers raise\<close>

text \<open>
  Whether a broadcast raises, and the length of its result, depend on the lengths of the
  operands only. \<open>calcite\<close> and \<open>aragonite\<close> broadcast the same operands in the same
  order, so one raises exactly when the other does.
\<close>

lemma broadcast2_shape:
  assumes "length xs = length xs'" "length ys = length ys'"
  shows "map_option length (broadcast2 f xs ys) = map_option length (broadcast2 g xs' ys')"
  using assms by (simp add: broadcast2_def)

lemma bind_shape:
  assumes "map_option length A = map_option length A'"
    and "\<And>a a'. A = Some a \<Longrightarrow> A' = Some a' \<Longrightarrow> length a = length a' \<Longrightarrow>
           map_option length (B a) = map_option length (B' a')"
  shows "map_option length (A \<bind> B) = map_option length (A' \<bind> B')"
proof (cases A)
  case None
  with assms(1) have "A' = None" by simp
  with None show ?thesis by simp
next
  case (Some a)
  with assms(1) obtain a' where a': "A' = Some a'" "length a = length a'"
    by (cases A') auto
  with Some assms(2) show ?thesis by simp
qed

lemma broadcast3_shape:
  assumes "length xs = length xs'" "length ys = length ys'" "length zs = length zs'"
  shows "map_option length (broadcast3 f xs ys zs) = map_option length (broadcast3 g xs' ys' zs')"
  unfolding broadcast3_def
  using assms by (intro bind_shape broadcast2_shape) simp_all

lemma calcite_aragonite_shape:
  "map_option length (calcite R Sal TempK Pbar CARB TCa WhichKs K1 K2) =
   map_option length (aragonite R Sal TempK Pbar CARB TCa WhichKs K1 K2)"
  unfolding calcite_def aragonite_def np_where_def Let_def
  by (intro bind_shape broadcast3_shape broadcast2_shape) simp_all

lemma calcite_None_iff:
  "calcite R Sal TempK Pbar CARB TCa WhichKs K1 K2 = None \<longleftrightarrow>
   aragonite R Sal TempK Pbar CARB TCa WhichKs K1 K2 = None"
  using calcite_aragonite_shape [of R Sal TempK Pbar CARB TCa WhichKs K1 K2]
  by (metis option.map_disc_iff)

section \<open>The ICHP73 fit at unit salinity\<close>

text \<open>
  At \<open>Sal = 1\<close> the cube root is one and the logarithm is zero, so the fit is
  \<open>1e-7 * (- 34.452 - 39.866 - 0.0000075752 * TempK ** 2)\<close>, which is negative.
\<close>

lemma k_calcite_I75_unit_salinity:
  assumes "R \<noteq> 0" "0 < T"
  shows "k_calcite_I75 R (Fin T) (Fin 1) (Fin P) =
     Fin (0.0000001 * (- 34.452 - 39.866 - 0.0000075752 * T\<^sup>2) *
          exp ((36 - 0.2 * (T - 273.15)) * P / (R * T)))"
  using assms by (simp add: k_calcite_I75_def TempK2C_def Let_def npfloat_literals)

lemma I75_fit_unit_salinity_negative:
  "0.0000001 * (- 34.452 - 39.866 - 0.0000075752 * T\<^sup>2) < (0::real)"
proof -
  have "- 92897500000 < 9469 * T\<^sup>2"
    by (rule less_le_trans [of _ 0]) simp_all
  then show ?thesis by simp
qed

section \<open>Dispatch by the constant-set selector\<close>

text \<open>
  Claim C1. In a batch of \<open>n\<close> samples (all arrays of length \<open>n\<close>), the saturation
  state at every index \<open>i\<close> is \<open>CARB[i] * TCa[i]\<close> divided by the solubility constant
  selected for that sample alone: \<open>k_calcite_I75\<close> (for aragonite,
  \<open>k_aragonite_GEOSECS\<close>) of the sample's \<open>TempK\<close>, \<open>Sal\<close>, \<open>Pbar\<close> when
  \<open>WhichKs[i]\<close> is 6 or 7, and \<open>k_calcite_M83\<close> (\<open>k_aragonite_M83\<close>) otherwise,
  whatever the selectors of the other samples are.
\<close>

theorem dispatch_selects_per_element:
  assumes "length Sal = n" "length TempK = n" "length Pbar = n" "length CARB = n"
    "length TCa = n" "length WhichKs = n" and "i < n"
  shows "map_option (\<lambda>OmegaCa. OmegaCa ! i) (calcite R Sal TempK Pbar CARB TCa WhichKs K1 K2) =
       Some (CARB ! i * TCa ! i /
         (if WhichKs ! i = 6 \<or> WhichKs ! i = 7
          then k_calcite_I75 R (TempK ! i) (Sal ! i) (Pbar ! i)
          else k_calcite_M83 R (TempK ! i) (Sal ! i) (Pbar ! i))) \<and>
     map_option (\<lambda>OmegaAr. OmegaAr ! i) (aragonite R Sal TempK Pbar CARB TCa WhichKs K1 K2) =
       Some (CARB ! i * TCa ! i /
         (if WhichKs ! i = 6 \<or> WhichKs ! i = 7
          then k_aragonite_GEOSECS R (TempK ! i) (Sal ! i) (Pbar ! i)
          else k_aragonite_M83 R (TempK ! i) (Sal ! i) (Pbar ! i)))"
  using calcite_at_index [OF assms, of R K1 K2] aragonite_at_index [OF assms, of R K1 K2]
  by (rule conjI)

text \<open>
  A mixed batch: index 0 has \<open>WhichKs = 6\<close> and goes through the GEOSECS formulae, index 1
  has \<open>WhichKs = 4\<close> and goes through M83.
\<close>

theorem dispatch_selects_per_element_witness:
  "map_option (\<lambda>OmegaCa. OmegaCa ! 0)
     (calcite 83.1451 [35, 35] [298.15, 298.15] [0, 0] [0.0002, 0.0002] [0.0102, 0.0102] [6, 4] [] []) =
     Some (0.0002 * 0.0102 / k_calcite_I75 83.1451 298.15 35 0) \<and>
   map_option (\<lambda>OmegaCa. OmegaCa ! 1)
     (calcite 83.1451 [35, 35] [298.15, 298.15] [0, 0] [0.0002, 0.0002] [0.0102, 0.0102] [6, 4] [] []) =
     Some (0.0002 * 0.0102 / k_calcite_M83 83.1451 298.15 35 0) \<and>
   map_option (\<lambda>OmegaAr. OmegaAr ! 0)
     (aragonite 83.1451 [35, 35] [298.15, 298.15] [0, 0] [0.0002, 0.0002] [0.0102, 0.0102] [6, 4] [] []) =
     Some (0.0002 * 0.0102 / k_aragonite_GEOSECS 83.1451 298.15 35 0) \<and>
   map_option (\<lambda>OmegaAr. OmegaAr ! 1)
     (aragonite 83.1451 [35, 35] [298.15, 298.15] [0, 0] [0.0002, 0.0002] [0.0102, 0.0102] [6, 4] [] []) =
     Some (0.0002 * 0.0102 / k_aragonite_M83 83.1451 298.15 35 0)"
  using dispatch_selects_per_element [of "[35, 35]" 2 "[298.15, 298.15]" "[0, 0]"
      "[0.0002, 0.0002]" "[0.0102, 0.0102]" "[6, 4]" 0 "83.1451" "[]" "[]"]
    dispatch_selects_per_element [of "[35, 35]" 2 "[298.15, 298.15]" "[0, 0]"
      "[0.0002, 0.0002]" "[0.0102, 0.0102]" "[6, 4]" 1 "83.1451" "[]" "[]"]
  by simp

section \<open>The GEOSECS aragonite constant\<close>

text \<open>
  Claim C2. For all inputs, \<open>k_aragonite_GEOSECS(TempK, Sal, Pbar)\<close> is
  \<open>1.45 * k_calcite_I75(TempK, Sal, Pbar) * exp((33.3 - 0.22 * TempC) * Pbar / (R * TempK))\<close>
  with \<open>TempC = TempK - 273.15\<close>. The factor is 1.45 and not 1.48: at
  \<open>TempK = 298.15\<close>, \<open>Sal = 1\<close>, \<open>Pbar = 0\<close> the same expression with 1.48 gives
  another value.
\<close>

theorem k_aragonite_GEOSECS_scales_calcite_I75:
  "k_aragonite_GEOSECS R TempK Sal Pbar =
     1.45 * k_calcite_I75 R TempK Sal Pbar *
       np_exp ((33.3 - 0.22 * (TempK - 273.15)) * Pbar / (Fin R * TempK)) \<and>
   (R \<noteq> 0 \<longrightarrow>
     k_aragonite_GEOSECS R 298.15 1 0 \<noteq>
       1.48 * k_calcite_I75 R 298.15 1 0 *
         np_exp ((33.3 - 0.22 * (298.15 - 273.15)) * 0 / (Fin R * 298.15)))"
proof (intro conjI impI)
  show "k_aragonite_GEOSECS R TempK Sal Pbar =
     1.45 * k_calcite_I75 R TempK Sal Pbar *
       np_exp ((33.3 - 0.22 * (TempK - 273.15)) * Pbar / (Fin R * TempK))"
    by (simp only: k_aragonite_GEOSECS_def TempK2C_def Let_def)
next
  assume R: "R \<noteq> 0"
  define fit :: real where "fit = 0.0000001 * (- 34.452 - 39.866 - 0.0000075752 * 298.15\<^sup>2)"
  have fit: "fit \<noteq> 0"
    using I75_fit_unit_salinity_negative [of "298.15"] by (simp add: fit_def)
  have lit: "(298.15 :: npfloat) = Fin 298.15" "(1 :: npfloat) = Fin 1" "(0 :: npfloat) = Fin 0"
    by (simp_all add: npfloat_literals)
  have KCa: "k_calcite_I75 R (Fin 298.15) (Fin 1) (Fin 0) = Fin fit"
    unfolding fit_def using R by (subst k_calcite_I75_unit_salinity) simp_all
  have e: "np_exp ((33.3 - 0.22 * (Fin 298.15 - 273.15)) * Fin 0 / (Fin R * Fin 298.15)) = Fin 1"
    using R by (simp add: npfloat_literals)
  have "k_aragonite_GEOSECS R (Fin 298.15) (Fin 1) (Fin 0) = Fin (1.45 * fit)"
    by (simp only: k_aragonite_GEOSECS_def TempK2C_def Let_def KCa e) (simp add: npfloat_literals)
  moreover have "1.48 * k_calcite_I75 R (Fin 298.15) (Fin 1) (Fin 0) *
      np_exp ((33.3 - 0.22 * (Fin 298.15 - 273.15)) * Fin 0 / (Fin R * Fin 298.15)) = Fin (1.48 * fit)"
    by (simp only: KCa e) (simp add: npfloat_literals)
  ultimately show "k_aragonite_GEOSECS R 298.15 1 0 \<noteq>
       1.48 * k_calcite_I75 R 298.15 1 0 *
         np_exp ((33.3 - 0.22 * (298.15 - 273.15)) * 0 / (Fin R * 298.15))"
    unfolding lit using fit by simp
qed

theorem k_aragonite_GEOSECS_scales_calcite_I75_witness:
  "k_aragonite_GEOSECS 83.1451 298.15 35 10 =
     1.45 * k_calcite_I75 83.1451 298.15 35 10 *
       np_exp ((33.3 - 0.22 * (298.15 - 273.15)) * 10 / (Fin 83.1451 * 298.15)) \<and>
   (83.1451 :: real) \<noteq> 0 \<and>
   k_aragonite_GEOSECS 83.1451 298.15 1 0 \<noteq>
       1.48 * k_calcite_I75 83.1451 298.15 1 0 *
         np_exp ((33.3 - 0.22 * (298.15 - 273.15)) * 0 / (Fin 83.1451 * 298.15))"
  using k_aragonite_GEOSECS_scales_calcite_I75 [of "83.1451" "298.15" "35" "10"] by simp

section \<open>The M83 pressure correction\<close>

text \<open>
  Claim C3. For all inputs, \<open>k_aragonite_M83\<close> multiplies its zero-pressure fit by
  \<open>exp((-(deltaVKCa + 2.8) + 0.5 * KappaKCa * Pbar) * Pbar / (R * TempK))\<close>, where
  \<open>deltaVKCa\<close> and \<open>KappaKCa\<close> are the pair that \<open>_deltaKappaCalcite_I75\<close> returns at
  \<open>TempC = TempK - 273.15\<close>: the delta-V of aragonite is that of calcite plus 2.8 and its
  kappa is that of calcite. \<open>k_calcite_M83\<close> applies the same pair without the offset.
\<close>

theorem k_aragonite_M83_pressure_correction:
  "k_aragonite_M83 R TempK Sal Pbar =
     (let (deltaVKCa, KappaKCa) = deltaKappaCalcite_I75 (TempK - 273.15);
          logKAr = - 171.945 - 0.077993 * TempK + 2903.293 / TempK;
          logKAr = logKAr + 71.595 * np_log10 TempK;
          logKAr = logKAr + (- 0.068393 + 0.0017276 * TempK + 88.135 / TempK) * np_sqrt Sal;
          logKAr = logKAr - 0.10018 * Sal + 0.0059415 * np_sqrt Sal * Sal
      in np_power 10.0 logKAr *
         np_exp ((- (deltaVKCa + 2.8) + 0.5 * KappaKCa * Pbar) * Pbar / (Fin R * TempK))) \<and>
   k_calcite_M83 R TempK Sal Pbar =
     (let (deltaVKCa, KappaKCa) = deltaKappaCalcite_I75 (TempK - 273.15);
          logKCa = - 171.9065 - 0.077993 * TempK + 2839.319 / TempK;
          logKCa = logKCa + 71.595 * np_log10 TempK;
          logKCa = logKCa + (- 0.77712 + 0.0028426 * TempK + 178.34 / TempK) * np_sqrt Sal;
          logKCa = logKCa - 0.07711 * Sal + 0.0041249 * np_sqrt Sal * Sal
      in np_power 10.0 logKCa *
         np_exp ((- deltaVKCa + 0.5 * KappaKCa * Pbar) * Pbar / (Fin R * TempK)))"
  by (simp only: k_aragonite_M83_def k_calcite_M83_def TempK2C_def Let_def split_def)

section \<open>The unit-conversion wrapper\<close>

text \<open>
  Claim C4. \<open>CaCO3\<close> returns both saturation states, and they are the results of
  \<open>calcite\<close> and of \<open>aragonite\<close> called with \<open>TempC + 273.15\<close> and \<open>Pdbar / 10\<close>
  in place of \<open>TempC\<close> and \<open>Pdbar\<close>; it raises exactly when they do.
\<close>

theorem CaCO3_is_calcite_and_aragonite_converted:
  "map_option fst (CaCO3 R Sal TempC Pdbar CARB TCa WhichKs K1 K2) =
     calcite R Sal (map (\<lambda>t. t + 273.15) TempC) (map (\<lambda>p. p / 10) Pdbar) CARB TCa WhichKs K1 K2 \<and>
   map_option snd (CaCO3 R Sal TempC Pdbar CARB TCa WhichKs K1 K2) =
     aragonite R Sal (map (\<lambda>t. t + 273.15) TempC) (map (\<lambda>p. p / 10) Pdbar) CARB TCa WhichKs K1 K2"
proof -
  let ?TempK = "map (\<lambda>t. t + 273.15) TempC" and ?Pbar = "map (\<lambda>p. p / 10) Pdbar"
  let ?ca = "calcite R Sal ?TempK ?Pbar CARB TCa WhichKs K1 K2"
  let ?ar = "aragonite R Sal ?TempK ?Pbar CARB TCa WhichKs K1 K2"
  have conv: "map TempC2K TempC = ?TempK" "map Pdbar2bar Pdbar = ?Pbar"
    by (simp_all add: TempC2K_def Pdbar2bar_def)
  have unfold: "CaCO3 R Sal TempC Pdbar CARB TCa WhichKs K1 K2 =
      do { OmegaCa \<leftarrow> ?ca; OmegaAr \<leftarrow> ?ar; Some (OmegaCa, OmegaAr) }"
    by (simp only: CaCO3_def Let_def conv)
  have none: "?ca = None \<longleftrightarrow> ?ar = None"
    by (rule calcite_None_iff)
  show ?thesis
  proof (cases ?ca)
    case None
    with none unfold show ?thesis by simp
  next
    case (Some a)
    with none obtain b where "?ar = Some b" by (cases ?ar) auto
    with Some unfold show ?thesis by simp
  qed
qed

section \<open>The unused arguments\<close>

text \<open>
  Claim C7. \<open>calcite\<close>, \<open>aragonite\<close> and \<open>CaCO3\<close> do not read \<open>K1\<close> and \<open>K2\<close>:
  two calls that differ in these arguments only return the same result.
\<close>

theorem K1_K2_do_not_influence_saturation_states:
  "calcite R Sal TempK Pbar CARB TCa WhichKs K1 K2 =
     calcite R Sal TempK Pbar CARB TCa WhichKs K1' K2' \<and>
   aragonite R Sal TempK Pbar CARB TCa WhichKs K1 K2 =
     aragonite R Sal TempK Pbar CARB TCa WhichKs K1' K2' \<and>
   CaCO3 R Sal TempC Pdbar CARB TCa WhichKs K1 K2 =
     CaCO3 R Sal TempC Pdbar CARB TCa WhichKs K1' K2'"
  by (simp only: calcite_def aragonite_def CaCO3_def)

section \<open>Zero pressure\<close>

text \<open>
  Claim C5. For every \<open>TempK\<close> and \<open>Sal\<close>, at \<open>Pdbar = 0\<close> (hence \<open>Pbar = 0\<close>)
  \<open>k_calcite_M83\<close> returns the zero-pressure value \<open>10 ** logKCa\<close> of its fit: the
  exponent \<open>(- deltaVKCa + 0.5 * KappaKCa * 0) * 0 / (R * TempK)\<close> is zero and the
  pressure factor is one (lemma \<open>zero_pressure_exponent\<close>). Where \<open>TempK\<close> is zero or
  not finite, the fit and the result are both not finite.
\<close>

theorem k_calcite_M83_zero_pressure_is_fit:
  assumes "R \<noteq> 0"
  shows "Pdbar2bar 0 = 0 \<and>
     k_calcite_M83 R TempK Sal 0 =
     (let logKCa = - 171.9065 - 0.077993 * TempK + 2839.319 / TempK;
          logKCa = logKCa + 71.595 * np_log10 TempK;
          logKCa = logKCa + (- 0.77712 + 0.0028426 * TempK + 178.34 / TempK) * np_sqrt Sal;
          logKCa = logKCa - 0.07711 * Sal + 0.0041249 * np_sqrt Sal * Sal
      in np_power 10.0 logKCa)"
proof
  show "Pdbar2bar 0 = 0"
    by (simp add: Pdbar2bar_def npfloat_literals)
next
  show "k_calcite_M83 R TempK Sal 0 =
     (let logKCa = - 171.9065 - 0.077993 * TempK + 2839.319 / TempK;
          logKCa = logKCa + 71.595 * np_log10 TempK;
          logKCa = logKCa + (- 0.77712 + 0.0028426 * TempK + 178.34 / TempK) * np_sqrt Sal;
          logKCa = logKCa - 0.07711 * Sal + 0.0041249 * np_sqrt Sal * Sal
      in np_power 10.0 logKCa)"
  proof (cases TempK)
    case NonFin
    then show ?thesis
      by (simp add: k_calcite_M83_def Let_def split_def)
  next
    case (Fin t)
    show ?thesis
    proof (cases "t = 0")
      case True
      with Fin show ?thesis
        by (simp add: k_calcite_M83_def Let_def split_def npfloat_literals)
    next
      case False
      obtain a where a: "- fst (deltaKappaCalcite_I75 (TempK2C (Fin t))) +
          0.5 * snd (deltaKappaCalcite_I75 (TempK2C (Fin t))) * 0 = Fin a"
        by (simp add: deltaKappaCalcite_I75_def TempK2C_def Let_def npfloat_literals)
      have "np_exp ((- fst (deltaKappaCalcite_I75 (TempK2C (Fin t))) +
          0.5 * snd (deltaKappaCalcite_I75 (TempK2C (Fin t))) * 0) * 0 / (Fin R * Fin t)) = Fin 1"
        unfolding a using assms False by (rule zero_pressure_exponent)
      then show ?thesis
        unfolding Fin by (simp only: k_calcite_M83_def Let_def split_def times_one_npfloat)
    qed
  qed
qed

theorem k_calcite_M83_zero_pressure_is_fit_witness:
  "(83.1451 :: real) \<noteq> 0 \<and> Pdbar2bar 0 = 0 \<and>
   k_calcite_M83 83.1451 298.15 35 0 =
     (let logKCa = - 171.9065 - 0.077993 * 298.15 + 2839.319 / 298.15;
          logKCa = logKCa + 71.595 * np_log10 298.15;
          logKCa = logKCa + (- 0.77712 + 0.0028426 * 298.15 + 178.34 / 298.15) * np_sqrt 35;
          logKCa = logKCa - 0.07711 * 35 + 0.0041249 * np_sqrt 35 * 35
      in np_power 10.0 logKCa)"
  using k_calcite_M83_zero_pressure_is_fit [of "83.1451" "298.15" "35"] by simp

section \<open>The M83 constants of standard seawater at zero pressure\<close>

lemma k_calcite_M83_zero_pressure_value:
  assumes "R \<noteq> 0" "0 < T" "0 \<le> S"
  shows "k_calcite_M83 R (Fin T) (Fin S) (Fin 0) =
     Fin (10 powr (- 171.9065 - 0.077993 * T + 2839.319 / T + 71.595 * log 10 T +
        (- 0.77712 + 0.0028426 * T + 178.34 / T) * sqrt S - 0.07711 * S + 0.0041249 * sqrt S * S))"
  using assms
  by (simp add: k_calcite_M83_def deltaKappaCalcite_I75_def TempK2C_def Let_def npfloat_literals)

lemma k_aragonite_M83_zero_pressure_value:
  assumes "R \<noteq> 0" "0 < T" "0 \<le> S"
  shows "k_aragonite_M83 R (Fin T) (Fin S) (Fin 0) =
     Fin (10 powr (- 171.945 - 0.077993 * T + 2903.293 / T + 71.595 * log 10 T +
        (- 0.068393 + 0.0017276 * T + 88.135 / T) * sqrt S - 0.10018 * S + 0.0059415 * sqrt S * S))"
  using assms
  by (simp add: k_aragonite_M83_def deltaKappaCalcite_I75_def TempK2C_def Let_def npfloat_literals)

lemma M83_fit_order_standard_seawater:
  fixes X s :: real
  assumes "5 < s"
  shows "- 171.9065 - 0.077993 * 298.15 + 2839.319 / 298.15 + 71.595 * X +
        (- 0.77712 + 0.0028426 * 298.15 + 178.34 / 298.15) * s - 0.07711 * 35 + 0.0041249 * s * 35
      < - 171.945 - 0.077993 * 298.15 + 2903.293 / 298.15 + 71.595 * X +
        (- 0.068393 + 0.0017276 * 298.15 + 88.135 / 298.15) * s - 0.10018 * 35 + 0.0059415 * s * 35"
  using assms by (simp add: field_simps)

lemma M83_standard_seawater:
  assumes "R \<noteq> 0"
  shows "\<exists>KCa KAr. k_calcite_M83 R (Fin 298.15) (Fin 35) (Fin 0) = Fin KCa \<and>
     k_aragonite_M83 R (Fin 298.15) (Fin 35) (Fin 0) = Fin KAr \<and> 0 < KCa \<and> KCa < KAr"
proof -
  define lCa :: real where "lCa = - 171.9065 - 0.077993 * 298.15 + 2839.319 / 298.15 +
     71.595 * log 10 298.15 + (- 0.77712 + 0.0028426 * 298.15 + 178.34 / 298.15) * sqrt 35 -
     0.07711 * 35 + 0.0041249 * sqrt 35 * 35"
  define lAr :: real where "lAr = - 171.945 - 0.077993 * 298.15 + 2903.293 / 298.15 +
     71.595 * log 10 298.15 + (- 0.068393 + 0.0017276 * 298.15 + 88.135 / 298.15) * sqrt 35 -
     0.10018 * 35 + 0.0059415 * sqrt 35 * 35"
  have "5 < sqrt 35"
    by (rule real_less_rsqrt) simp
  then have "lCa < lAr"
    unfolding lCa_def lAr_def by (rule M83_fit_order_standard_seawater)
  then have "(0::real) < 10 powr lCa" "10 powr lCa < (10::real) powr lAr"
    by simp_all
  moreover have "k_calcite_M83 R (Fin 298.15) (Fin 35) (Fin 0) = Fin (10 powr lCa)"
    unfolding lCa_def using assms by (intro k_calcite_M83_zero_pressure_value) simp_all
  moreover have "k_aragonite_M83 R (Fin 298.15) (Fin 35) (Fin 0) = Fin (10 powr lAr)"
    unfolding lAr_def using assms by (intro k_aragonite_M83_zero_pressure_value) simp_all
  ultimately show ?thesis by blast
qed

section \<open>The saturation ratio\<close>

text \<open>Nothing guards the division: a zero divisor gives a value that is not finite.\<close>

lemma divide_by_zero_npfloat: "x / Fin 0 = NonFin"
  by (cases x) simp_all

text \<open>
  Claim C6. \<open>Omega = CARB * TCa / Ksp\<close> at every index, with no check of the inputs.
  When the selected constant of sample \<open>i\<close> is a positive number (and \<open>CARB[i]\<close>,
  \<open>TCa[i]\<close> are numbers), \<open>calcite\<close> and \<open>aragonite\<close> return exactly
  \<open>CARB[i] * TCa[i] / Ksp\<close> there.
\<close>

theorem saturation_ratio_under_positive_Ksp:
  assumes "length Sal = n" "length TempK = n" "length Pbar = n" "length CARB = n"
    "length TCa = n" "length WhichKs = n" and "i < n"
    and "CARB ! i = Fin c" "TCa ! i = Fin t"
    and KCa: "(if WhichKs ! i = 6 \<or> WhichKs ! i = 7
          then k_calcite_I75 R (TempK ! i) (Sal ! i) (Pbar ! i)
          else k_calcite_M83 R (TempK ! i) (Sal ! i) (Pbar ! i)) = Fin KCa"
    and KAr: "(if WhichKs ! i = 6 \<or> WhichKs ! i = 7
          then k_aragonite_GEOSECS R (TempK ! i) (Sal ! i) (Pbar ! i)
          else k_aragonite_M83 R (TempK ! i) (Sal ! i) (Pbar ! i)) = Fin KAr"
    and "0 < KCa" "0 < KAr"
  shows "map_option (\<lambda>OmegaCa. OmegaCa ! i) (calcite R Sal TempK Pbar CARB TCa WhichKs K1 K2) =
       Some (Fin (c * t / KCa)) \<and>
     map_option (\<lambda>OmegaAr. OmegaAr ! i) (aragonite R Sal TempK Pbar CARB TCa WhichKs K1 K2) =
       Some (Fin (c * t / KAr))"
proof -
  have "Fin c * Fin t / Fin KCa = Fin (c * t / KCa)" "Fin c * Fin t / Fin KAr = Fin (c * t / KAr)"
    using \<open>0 < KCa\<close> \<open>0 < KAr\<close> by simp_all
  then show ?thesis
    using calcite_at_index [OF assms(1-7), of R K1 K2] aragonite_at_index [OF assms(1-7), of R K1 K2]
    by (simp only: KCa KAr assms(8,9))
qed

theorem saturation_ratio_under_positive_Ksp_witness:
  "\<exists>KCa KAr. 0 < KCa \<and> 0 < KAr \<and>
     k_calcite_M83 83.1451 (Fin 298.15) (Fin 35) (Fin 0) = Fin KCa \<and>
     k_aragonite_M83 83.1451 (Fin 298.15) (Fin 35) (Fin 0) = Fin KAr \<and>
     map_option (\<lambda>OmegaCa. OmegaCa ! 0)
       (calcite 83.1451 [Fin 35] [Fin 298.15] [Fin 0] [Fin 0.0002] [Fin 0.0102] [1] [] []) =
       Some (Fin (0.0002 * 0.0102 / KCa)) \<and>
     map_option (\<lambda>OmegaAr. OmegaAr ! 0)
       (aragonite 83.1451 [Fin 35] [Fin 298.15] [Fin 0] [Fin 0.0002] [Fin 0.0102] [1] [] []) =
       Some (Fin (0.0002 * 0.0102 / KAr))"
proof -
  obtain KCa KAr where K: "k_calcite_M83 83.1451 (Fin 298.15) (Fin 35) (Fin 0) = Fin KCa"
    "k_aragonite_M83 83.1451 (Fin 298.15) (Fin 35) (Fin 0) = Fin KAr" "0 < KCa" "KCa < KAr"
    using M83_standard_seawater [of "83.1451"] by auto
  have "map_option (\<lambda>OmegaCa. OmegaCa ! 0)
       (calcite 83.1451 [Fin 35] [Fin 298.15] [Fin 0] [Fin 0.0002] [Fin 0.0102] [1] [] []) =
       Some (Fin (0.0002 * 0.0102 / KCa)) \<and>
     map_option (\<lambda>OmegaAr. OmegaAr ! 0)
       (aragonite 83.1451 [Fin 35] [Fin 298.15] [Fin 0] [Fin 0.0002] [Fin 0.0102] [1] [] []) =
       Some (Fin (0.0002 * 0.0102 / KAr))"
    using K by (intro saturation_ratio_under_positive_Ksp [where n = 1]) simp_all
  with K show ?thesis by force
qed

section \<open>Standard seawater\<close>

text \<open>
  Claim C8. For \<open>Sal = 35\<close>, \<open>TempC = 25\<close>, \<open>Pdbar = 0\<close>, \<open>CARB = 200e-6\<close>,
  \<open>TCa = 0.0102\<close>, \<open>WhichKs = 1\<close>, \<open>CaCO3\<close> returns
  \<open>OmegaCa = CARB * TCa / KCa\<close> and \<open>OmegaAr = CARB * TCa / KAr\<close> for the M83
  constants \<open>KCa\<close>, \<open>KAr\<close> at \<open>TempK = 298.15\<close>; both are positive numbers and
  \<open>OmegaAr < OmegaCa\<close>, because \<open>0 < KCa < KAr\<close>.
\<close>

theorem CaCO3_standard_seawater:
  assumes "R \<noteq> 0"
  shows "\<exists>KCa KAr.
     k_calcite_M83 R 298.15 35 0 = Fin KCa \<and> k_aragonite_M83 R 298.15 35 0 = Fin KAr \<and>
     0 < KCa \<and> KCa < KAr \<and>
     CaCO3 R [35] [25] [0] [0.0002] [0.0102] [1] K1 K2 =
       Some ([Fin (0.0002 * 0.0102 / KCa)], [Fin (0.0002 * 0.0102 / KAr)]) \<and>
     0 < 0.0002 * 0.0102 / KAr \<and> 0.0002 * 0.0102 / KAr < 0.0002 * 0.0102 / KCa"
proof -
  obtain KCa KAr where K: "k_calcite_M83 R (Fin 298.15) (Fin 35) (Fin 0) = Fin KCa"
    "k_aragonite_M83 R (Fin 298.15) (Fin 35) (Fin 0) = Fin KAr" "0 < KCa" "KCa < KAr"
    using M83_standard_seawater [OF assms] by blast
  have lit: "(35 :: npfloat) = Fin 35" "(298.15 :: npfloat) = Fin 298.15" "(0 :: npfloat) = Fin 0"
    by (simp_all add: npfloat_literals)
  have "CaCO3 R [35] [25] [0] [0.0002] [0.0102] [1] K1 K2 =
      Some ([Fin (0.0002 * 0.0102 / KCa)], [Fin (0.0002 * 0.0102 / KAr)])"
    using K(3,4)
    by (simp add: CaCO3_equal_length [where n = 1] TempC2K_def Pdbar2bar_def npfloat_literals
        K(1,2) [simplified])
  moreover have "0 < 0.0002 * 0.0102 / KAr"
    using K(3,4) by simp
  moreover have "0.0002 * 0.0102 / KAr < 0.0002 * 0.0102 / KCa"
    using K(3,4) by (simp add: frac_less2)
  ultimately show ?thesis
    using K unfolding lit by blast
qed

theorem CaCO3_standard_seawater_witness:
  "(83.1451 :: real) \<noteq> 0 \<and>
   (\<exists>KCa KAr.
     k_calcite_M83 83.1451 298.15 35 0 = Fin KCa \<and> k_aragonite_M83 83.1451 298.15 35 0 = Fin KAr \<and>
     0 < KCa \<and> KCa < KAr \<and>
     CaCO3 83.1451 [35] [25] [0] [0.0002] [0.0102] [1] [] [] =
       Some ([Fin (0.0002 * 0.0102 / KCa)], [Fin (0.0002 * 0.0102 / KAr)]) \<and>
     0 < 0.0002 * 0.0102 / KAr \<and> 0.0002 * 0.0102 / KAr < 0.0002 * 0.0102 / KCa)"
proof
  show R: "(83.1451 :: real) \<noteq> 0" by simp
  show "\<exists>KCa KAr.
     k_calcite_M83 83.1451 298.15 35 0 = Fin KCa \<and> k_aragonite_M83 83.1451 298.15 35 0 = Fin KAr \<and>
     0 < KCa \<and> KCa < KAr \<and>
     CaCO3 83.1451 [35] [25] [0] [0.0002] [0.0102] [1] [] [] =
       Some ([Fin (0.0002 * 0.0102 / KCa)], [Fin (0.0002 * 0.0102 / KAr)]) \<and>
     0 < 0.0002 * 0.0102 / KAr \<and> 0.0002 * 0.0102 / KAr < 0.0002 * 0.0102 / KCa"
    by (rule CaCO3_standard_seawater [OF R])
qed

section \<open>GEOSECS samples at zero pressure\<close>

lemma GEOSECS_zero_pressure_constant:
  "k_aragonite_GEOSECS R T S 0 = 1.45 * k_calcite_I75 R T S 0"
proof -
  define fit where "fit = 0.0000001 *
     (- 34.452 - 39.866 * np_power S (1 / 3) + 110.21 * np_log10 S - 0.0000075752 * np_power T 2)"
  define e1 where "e1 = np_exp ((36 - 0.2 * TempK2C T) * 0 / (Fin R * T))"
  define e2 where "e2 = np_exp ((33.3 - 0.22 * TempK2C T) * 0 / (Fin R * T))"
  have KCa: "k_calcite_I75 R T S 0 = fit * e1"
    by (simp only: k_calcite_I75_def Let_def fit_def e1_def)
  have KAr: "k_aragonite_GEOSECS R T S 0 = 1.45 * (fit * e1) * e2"
    by (simp only: k_aragonite_GEOSECS_def Let_def KCa e2_def)
  consider "e1 = NonFin" | "e1 = Fin 1" "e2 = Fin 1"
  proof (cases T)
    case NonFin
    then have "e1 = NonFin" by (simp add: e1_def)
    then show ?thesis by (rule that(1))
  next
    case (Fin t)
    show ?thesis
    proof (cases "R * t = 0")
      case True
      with Fin have "e1 = NonFin" by (simp add: e1_def TempK2C_def npfloat_literals)
      then show ?thesis by (rule that(1))
    next
      case False
      with Fin have "e1 = Fin 1" "e2 = Fin 1"
        by (simp_all add: e1_def e2_def TempK2C_def npfloat_literals)
      then show ?thesis by (rule that(2))
    qed
  qed
  then show ?thesis
  proof cases
    case 1
    then show ?thesis
      unfolding KCa KAr by simp
  next
    case 2
    then show ?thesis
      unfolding KCa KAr by (simp only: times_one_npfloat)
  qed
qed

text \<open>
  Claim C9. For a sample with \<open>WhichKs\<close> 6 or 7 and \<open>Pbar = 0\<close>, both GEOSECS
  pressure factors are one, so \<open>KAr = 1.45 * KCa\<close>, and \<open>aragonite\<close> returns
  \<open>CARB * TCa / (1.45 * KCa)\<close> on that sample: the ratio \<open>calcite\<close> computes, with
  the solubility constant scaled by 1.45 before the division.
\<close>

theorem GEOSECS_zero_pressure_aragonite_scales_Ksp:
  assumes "length Sal = n" "length TempK = n" "length Pbar = n" "length CARB = n"
    "length TCa = n" "length WhichKs = n" and "i < n"
    and "WhichKs ! i = 6 \<or> WhichKs ! i = 7" and "Pbar ! i = 0"
  shows "k_aragonite_GEOSECS R (TempK ! i) (Sal ! i) (Pbar ! i) =
       1.45 * k_calcite_I75 R (TempK ! i) (Sal ! i) (Pbar ! i) \<and>
     map_option (\<lambda>OmegaAr. OmegaAr ! i) (aragonite R Sal TempK Pbar CARB TCa WhichKs K1 K2) =
       Some (CARB ! i * TCa ! i / (1.45 * k_calcite_I75 R (TempK ! i) (Sal ! i) (Pbar ! i))) \<and>
     map_option (\<lambda>OmegaCa. OmegaCa ! i) (calcite R Sal TempK Pbar CARB TCa WhichKs K1 K2) =
       Some (CARB ! i * TCa ! i / k_calcite_I75 R (TempK ! i) (Sal ! i) (Pbar ! i))"
proof (intro conjI)
  show "k_aragonite_GEOSECS R (TempK ! i) (Sal ! i) (Pbar ! i) =
       1.45 * k_calcite_I75 R (TempK ! i) (Sal ! i) (Pbar ! i)"
    unfolding assms(9) by (rule GEOSECS_zero_pressure_constant)
next
  have "map_option (\<lambda>OmegaAr. OmegaAr ! i) (aragonite R Sal TempK Pbar CARB TCa WhichKs K1 K2) =
      Some (CARB ! i * TCa ! i / k_aragonite_GEOSECS R (TempK ! i) (Sal ! i) 0)"
    using aragonite_at_index [OF assms(1-7), of R K1 K2] assms(8,9) by auto
  then show "map_option (\<lambda>OmegaAr. OmegaAr ! i)
        (aragonite R Sal TempK Pbar CARB TCa WhichKs K1 K2) =
      Some (CARB ! i * TCa ! i / (1.45 * k_calcite_I75 R (TempK ! i) (Sal ! i) (Pbar ! i)))"
    unfolding assms(9) by (simp only: GEOSECS_zero_pressure_constant)
next
  show "map_option (\<lambda>OmegaCa. OmegaCa ! i) (calcite R Sal TempK Pbar CARB TCa WhichKs K1 K2) =
      Some (CARB ! i * TCa ! i / k_calcite_I75 R (TempK ! i) (Sal ! i) (Pbar ! i))"
    using calcite_at_index [OF assms(1-7), of R K1 K2] assms(8) by auto
qed

theorem GEOSECS_zero_pressure_aragonite_scales_Ksp_witness:
  "k_aragonite_GEOSECS 83.1451 298.15 35 0 = 1.45 * k_calcite_I75 83.1451 298.15 35 0 \<and>
   map_option (\<lambda>OmegaAr. OmegaAr ! 0)
     (aragonite 83.1451 [35, 35] [298.15, 298.15] [0, 0] [0.0002, 0.0002] [0.0102, 0.0102] [6, 4] [] []) =
     Some (0.0002 * 0.0102 / (1.45 * k_calcite_I75 83.1451 298.15 35 0)) \<and>
   map_option (\<lambda>OmegaCa. OmegaCa ! 0)
     (calcite 83.1451 [35, 35] [298.15, 298.15] [0, 0] [0.0002, 0.0002] [0.0102, 0.0102] [6, 4] [] []) =
     Some (0.0002 * 0.0102 / k_calcite_I75 83.1451 298.15 35 0)"
  using GEOSECS_zero_pressure_aragonite_scales_Ksp [of "[35, 35]" 2 "[298.15, 298.15]"
      "[0, 0]" "[0.0002, 0.0002]" "[0.0102, 0.0102]" "[6, 4]" 0 "83.1451" "[]" "[]"]
  by simp

section \<open>The zero-pressure ratio in float64\<close>

text \<open>
  Dividing the calcite saturation state by 1.45 afterwards is another order of
  operations: \<open>(CARB * TCa / KCa) / 1.45\<close> against \<open>CARB * TCa / (1.45 * KCa)\<close>. In
  float64 the two roundings need not agree. The sample below has \<open>Sal = 1\<close>, where
  \<open>Sal ** (1 / 3)\<close> and \<open>log10(Sal)\<close> are exact, so that every step is a rounded
  operation of arithmetic.
\<close>

lemma rne_bounds: "real_of_int (rne m) \<le> m + 1 / 2" "m - 1 / 2 \<le> real_of_int (rne m)"
  unfolding rne_def Let_def by (auto simp: not_less) linarith+

lemma fl64_scaled:
  assumes lo: "2 ^ 52 \<le> \<bar>x\<bar> * 2 ^ k" and hi: "\<bar>x\<bar> * 2 ^ k < 2 ^ 53" and k: "k \<le> 1074"
  shows "fl64 x = of_int (rne (x * 2 ^ k)) / 2 ^ k"
proof -
  have x: "x \<noteq> 0" using lo by auto
  have p: "(2::real) powr (52 - real k) = 2 ^ 52 / 2 ^ k" "(2::real) powr (53 - real k) = 2 ^ 53 / 2 ^ k"
    by (simp_all add: powr_diff powr_realpow)
  have "\<lfloor>log 2 \<bar>x\<bar>\<rfloor> = 52 - int k"
    using x lo hi by (subst floor_log_eq_powr_iff) (simp_all add: p field_simps)
  moreover have "max (52 - int k) (- 1022) = 52 - int k"
    using k by simp
  moreover have "(2::real) powi (- int k) = 1 / 2 ^ k"
    by (simp add: power_int_minus_divide)
  ultimately show ?thesis
    using x by (simp add: fl64_def)
qed

lemma rnd_scaled:
  assumes lo: "2 ^ 52 \<le> \<bar>x\<bar> * 2 ^ k" and hi: "\<bar>x\<bar> * 2 ^ k < 2 ^ 53" and k: "k \<le> 1074"
  shows "rnd (Fin x) = Fin (of_int (rne (x * 2 ^ k)) / 2 ^ k)"
proof -
  define n where "n = real_of_int (rne (x * 2 ^ k))"
  have "\<bar>n\<bar> \<le> \<bar>x * 2 ^ k\<bar> + 1 / 2"
    unfolding n_def using rne_bounds [of "x * 2 ^ k"] by linarith
  also have "\<dots> < 2 ^ 54"
    using hi by (simp add: abs_mult)
  finally have n: "\<bar>n\<bar> < 2 ^ 54" .
  have "\<bar>n / 2 ^ k\<bar> = \<bar>n\<bar> / 2 ^ k"
    by simp
  also have "\<dots> \<le> \<bar>n\<bar>"
    using divide_left_mono [of 1 "2 ^ k" "\<bar>n\<bar>"] by simp
  finally have "\<bar>n / 2 ^ k\<bar> < 2 ^ 1024"
    using n power_strict_increasing [of 54 1024 "2::real"] by simp
  then show ?thesis
    using fl64_scaled [OF assms] by (simp add: n_def)
qed

lemma rnd_zero: "rnd (Fin 0) = Fin 0"
  by (simp add: fl64_def)

lemma float64_roundings:
  "rnd (Fin (1 / 3)) = Fin (6004799503160661 / 18014398509481984)"
  "rnd (Fin (1)) = Fin (1)"
  "rnd (Fin (19933 / 500)) = Fin (2805320355386753 / 70368744177664)"
  "rnd (Fin (2805320355386753 / 70368744177664)) = Fin (2805320355386753 / 70368744177664)"
  "rnd (Fin (8613 / 250)) = Fin (151521498400555 / 4398046511104)"
  "rnd (Fin (- (5229664329795633 / 70368744177664))) = Fin (- (5229664329795633 / 70368744177664))"
  "rnd (Fin (11021 / 100)) = Fin (7755339295820349 / 70368744177664)"
  "rnd (Fin (90000)) = Fin (90000)"
  "rnd (Fin (9469 / 1250000000)) = Fin (4471608822629267 / 590295810358705651712)"
  "rnd (Fin (25152799627289626875 / 36893488147419103232)) = Fin (6140820221506257 / 9007199254740992)"
  "rnd (Fin (- (675537854435347281 / 9007199254740992))) = Fin (- (5277639487776151 / 70368744177664))"
  "rnd (Fin (1 / 10000000)) = Fin (944473296573929 / 9444732965739290427392)"
  "rnd (Fin (- (4984589565148683398743574567279 / 664613997892457936451903530140172288))) = Fin (- (1106801220706873 / 147573952589676412928))"
  "rnd (Fin (5463 / 20)) = Fin (2402652809016115 / 8796093022208)"
  "rnd (Fin (236175097646285 / 8796093022208)) = Fin (236175097646285 / 8796093022208)"
  "rnd (Fin (1 / 5)) = Fin (3602879701896397 / 18014398509481984)"
  "rnd (Fin (850910465403199753565621935145 / 158456325028528675187087900672)) = Fin (47235019529257 / 8796093022208)"
  "rnd (Fin (269424329270231 / 8796093022208)) = Fin (269424329270231 / 8796093022208)"
  "rnd (Fin (831451 / 10000)) = Fin (5850816271526291 / 70368744177664)"
  "rnd (Fin (438811220364471825 / 17592186044416)) = Fin (857053164774359 / 34359738368)"
  "rnd (Fin (- (1106801220706873 / 147573952589676412928))) = Fin (- (1106801220706873 / 147573952589676412928))"
  "rnd (Fin (29 / 20)) = Fin (6530219459687219 / 4503599627370496)"
  "rnd (Fin (- (7227654869465590627734663556187 / 664613997892457936451903530140172288))) = Fin (- (6419447080099863 / 590295810358705651712))"
  "rnd (Fin (333 / 10)) = Fin (2343279181116211 / 70368744177664)"
  "rnd (Fin (11 / 50)) = Fin (7926335344172073 / 36028797018963968)"
  "rnd (Fin (1872003023887039363374329198805 / 316912650057057350374175801344)) = Fin (3325345374859693 / 562949953421312)"
  "rnd (Fin (15420888074069995 / 562949953421312)) = Fin (3855222018517499 / 140737488355328)"
  "rnd (Fin (- (6419447080099863 / 590295810358705651712))) = Fin (- (6419447080099863 / 590295810358705651712))"
  "rnd (Fin (1 / 524288)) = Fin (1 / 524288)"
  "rnd (Fin (- (281474976710656 / 1106801220706873))) = Fin (- (2290656310296853 / 9007199254740992))"
  "rnd (Fin (- (1125899906842624 / 6419447080099863))) = Fin (- (3159525945237039 / 18014398509481984))"
  "rnd (Fin (- (2290656310296853 / 13060438919374438))) = Fin (- (6319051890474077 / 36028797018963968))"
  apply (subst rnd_scaled [where k = 54]; simp add: rne_def)
  apply (subst rnd_scaled [where k = 52]; simp add: rne_def)
  apply (subst rnd_scaled [where k = 47]; simp add: rne_def)
  apply (subst rnd_scaled [where k = 47]; simp add: rne_def)
  apply (subst rnd_scaled [where k = 47]; simp add: rne_def)
  apply (subst rnd_scaled [where k = 46]; simp add: rne_def)
  apply (subst rnd_scaled [where k = 46]; simp add: rne_def)
  apply (subst rnd_scaled [where k = 36]; simp add: rne_def)
  apply (subst rnd_scaled [where k = 70]; simp add: rne_def)
  apply (subst rnd_scaled [where k = 53]; simp add: rne_def)
  apply (subst rnd_scaled [where k = 46]; simp add: rne_def)
  apply (subst rnd_scaled [where k = 76]; simp add: rne_def)
  apply (subst rnd_scaled [where k = 70]; simp add: rne_def)
  apply (subst rnd_scaled [where k = 44]; simp add: rne_def)
  apply (subst rnd_scaled [where k = 48]; simp add: rne_def)
  apply (subst rnd_scaled [where k = 55]; simp add: rne_def)
  apply (subst rnd_scaled [where k = 50]; simp add: rne_def)
  apply (subst rnd_scaled [where k = 48]; simp add: rne_def)
  apply (subst rnd_scaled [where k = 46]; simp add: rne_def)
  apply (subst rnd_scaled [where k = 38]; simp add: rne_def)
  apply (subst rnd_scaled [where k = 70]; simp add: rne_def)
  apply (subst rnd_scaled [where k = 52]; simp add: rne_def)
  apply (subst rnd_scaled [where k = 69]; simp add: rne_def)
  apply (subst rnd_scaled [where k = 47]; simp add: rne_def)
  apply (subst rnd_scaled [where k = 55]; simp add: rne_def)
  apply (subst rnd_scaled [where k = 50]; simp add: rne_def)
  apply (subst rnd_scaled [where k = 48]; simp add: rne_def)
  apply (subst rnd_scaled [where k = 69]; simp add: rne_def)
  apply (subst rnd_scaled [where k = 71]; simp add: rne_def)
  apply (subst rnd_scaled [where k = 54]; simp add: rne_def)
  apply (subst rnd_scaled [where k = 55]; simp add: rne_def)
  apply (subst rnd_scaled [where k = 55]; simp add: rne_def)
  done

lemma k_calcite_I75_f64_example:
  "k_calcite_I75_f64 83.1451 (Fin 300) (Fin 1) (Fin 0) =
     Fin (- (1106801220706873 / 147573952589676412928))"
  by (simp add: k_calcite_I75_f64_def TempK2C_f64_def f64_def Let_def npfloat_literals
      rnd_zero float64_roundings del: rnd.simps)

lemma k_aragonite_GEOSECS_f64_example:
  "k_aragonite_GEOSECS_f64 83.1451 (Fin 300) (Fin 1) (Fin 0) =
     Fin (- (6419447080099863 / 590295810358705651712))"
  by (simp add: k_aragonite_GEOSECS_f64_def k_calcite_I75_f64_example [simplified] TempK2C_f64_def
      f64_def Let_def npfloat_literals rnd_zero float64_roundings del: rnd.simps)

text \<open>The constants of this sample do satisfy \<open>KAr == 1.45 * KCa\<close> in float64.\<close>

lemma k_aragonite_GEOSECS_f64_example_scaled:
  "k_aragonite_GEOSECS_f64 83.1451 (Fin 300) (Fin 1) (Fin 0) =
     rnd (f64 1.45 * k_calcite_I75_f64 83.1451 (Fin 300) (Fin 1) (Fin 0))"
  by (simp add: k_aragonite_GEOSECS_f64_example [simplified]
      k_calcite_I75_f64_example [simplified] f64_def float64_roundings del: rnd.simps)

text \<open>
  For \<open>Sal = 1\<close>, \<open>TempK = 300\<close>, \<open>Pbar = 0\<close>, \<open>CARB = 2 ** -12\<close>,
  \<open>TCa = 2 ** -7\<close>, \<open>WhichKs = 6\<close> and \<open>RGasConstant = 83.1451\<close>, \<open>aragonite\<close>
  returns \<open>-0.1753889225651361\<close> and \<open>calcite(...) / 1.45\<close> is
  \<open>-0.17538892256513608\<close>, the next float64.
\<close>

theorem GEOSECS_zero_pressure_ratio_float64_counterexample:
  "map_option (\<lambda>OmegaAr. OmegaAr ! 0)
     (aragonite_f64 83.1451 [1] [300] [0] [0.000244140625] [0.0078125] [6] [] []) =
     Some (Fin (- (3159525945237039 / 18014398509481984))) \<and>
   map_option (\<lambda>OmegaCa. rnd (OmegaCa ! 0 / f64 1.45))
     (calcite_f64 83.1451 [1] [300] [0] [0.000244140625] [0.0078125] [6] [] []) =
     Some (Fin (- (6319051890474077 / 36028797018963968))) \<and>
   map_option (\<lambda>OmegaAr. OmegaAr ! 0)
     (aragonite_f64 83.1451 [1] [300] [0] [0.000244140625] [0.0078125] [6] [] []) \<noteq>
   map_option (\<lambda>OmegaCa. rnd (OmegaCa ! 0 / f64 1.45))
     (calcite_f64 83.1451 [1] [300] [0] [0.000244140625] [0.0078125] [6] [] [])"
proof -
  have ar: "map_option (\<lambda>OmegaAr. OmegaAr ! 0)
     (aragonite_f64 83.1451 [1] [300] [0] [0.000244140625] [0.0078125] [6] [] []) =
     Some (Fin (- (3159525945237039 / 18014398509481984)))"
    by (simp add: aragonite_f64_def np_where_def broadcast3_def broadcast2_def
        k_aragonite_GEOSECS_f64_example [simplified] npfloat_literals rnd_zero float64_roundings del: rnd.simps)
  have ca: "map_option (\<lambda>OmegaCa. rnd (OmegaCa ! 0 / f64 1.45))
     (calcite_f64 83.1451 [1] [300] [0] [0.000244140625] [0.0078125] [6] [] []) =
     Some (Fin (- (6319051890474077 / 36028797018963968)))"
    by (simp add: calcite_f64_def np_where_def broadcast3_def broadcast2_def f64_def
        k_calcite_I75_f64_example [simplified] npfloat_literals rnd_zero float64_roundings del: rnd.simps)
  show ?thesis
    unfolding ar ca by simp
qed

section \<open>A negative solubility constant\<close>

text \<open>
  Claim C10. At \<open>Sal = 1\<close> and any \<open>TempK > 0\<close>, \<open>k_calcite_I75\<close> is negative: at
  \<open>Pbar = 0\<close> it is the fit \<open>1e-7 * (- 34.452 - 39.866 - 0.0000075752 * TempK ** 2)\<close>,
  and at any other pressure the fit times a positive exponential. So a GEOSECS sample
  can reach the division by \<open>Ksp\<close> with a negative \<open>Ksp\<close>, and \<open>calcite\<close> then
  returns a negative saturation state.
\<close>

theorem k_calcite_I75_negative_at_unit_salinity:
  assumes "R \<noteq> 0" "0 < T"
  shows "k_calcite_I75 R (Fin T) 1 0 =
       Fin (0.0000001 * (- 34.452 - 39.866 - 0.0000075752 * T\<^sup>2)) \<and>
     0.0000001 * (- 34.452 - 39.866 - 0.0000075752 * T\<^sup>2) < 0 \<and>
     (\<exists>KCa. k_calcite_I75 R (Fin T) 1 (Fin P) = Fin KCa \<and> KCa < 0) \<and>
     map_option (\<lambda>OmegaCa. OmegaCa ! 0) (calcite R [1] [Fin T] [0] [Fin c] [Fin t] [6] K1 K2) =
       Some (Fin (c * t / (0.0000001 * (- 34.452 - 39.866 - 0.0000075752 * T\<^sup>2))))"
proof -
  let ?fit = "0.0000001 * (- 34.452 - 39.866 - 0.0000075752 * T\<^sup>2) :: real"
  have lit: "(1 :: npfloat) = Fin 1" "(0 :: npfloat) = Fin 0"
    by (simp_all add: npfloat_literals)
  have neg: "?fit < 0"
    by (rule I75_fit_unit_salinity_negative)
  have zero: "k_calcite_I75 R (Fin T) (Fin 1) (Fin 0) = Fin ?fit"
    using assms by (simp add: k_calcite_I75_unit_salinity)
  have "k_calcite_I75 R (Fin T) (Fin 1) (Fin P) =
      Fin (?fit * exp ((36 - 0.2 * (T - 273.15)) * P / (R * T)))"
    using assms by (rule k_calcite_I75_unit_salinity)
  moreover have "?fit * exp ((36 - 0.2 * (T - 273.15)) * P / (R * T)) < 0"
    using neg by (simp only: mult_neg_pos exp_gt_zero)
  ultimately have any: "\<exists>KCa. k_calcite_I75 R (Fin T) (Fin 1) (Fin P) = Fin KCa \<and> KCa < 0"
    by blast
  have "map_option (\<lambda>OmegaCa. OmegaCa ! 0)
      (calcite R [Fin 1] [Fin T] [Fin 0] [Fin c] [Fin t] [6] K1 K2) = Some (Fin (c * t / ?fit))"
    using neg by (simp add: calcite_at_index [where n = 1] zero)
  with neg zero any show ?thesis
    unfolding lit by blast
qed

theorem k_calcite_I75_negative_at_unit_salinity_witness:
  "(83.1451 :: real) \<noteq> 0 \<and> (0 :: real) < 298.15 \<and>
   k_calcite_I75 83.1451 (Fin 298.15) 1 0 =
       Fin (0.0000001 * (- 34.452 - 39.866 - 0.0000075752 * 298.15\<^sup>2)) \<and>
   0.0000001 * (- 34.452 - 39.866 - 0.0000075752 * 298.15\<^sup>2) < (0 :: real) \<and>
   (\<exists>KCa. k_calcite_I75 83.1451 (Fin 298.15) 1 (Fin 0) = Fin KCa \<and> KCa < 0) \<and>
   map_option (\<lambda>OmegaCa. OmegaCa ! 0)
     (calcite 83.1451 [1] [Fin 298.15] [0] [Fin 0.0002] [Fin 0.0102] [6] [] []) =
     Some (Fin (0.0002 * 0.0102 / (0.0000001 * (- 34.452 - 39.866 - 0.0000075752 * 298.15\<^sup>2))))"
proof -
  have h: "(83.1451 :: real) \<noteq> 0" "(0 :: real) < 298.15"
    by simp_all
  show ?thesis
    using h k_calcite_I75_negative_at_unit_salinity [OF h, of 0 "0.0002" "0.0102" "[]" "[]"] by blast
qed

end
